theory Spec2Isabelle
  imports Main "HOL-Library.Stream"
begin

section \<open>Planet: the toroidal grid of cells (classes/planet.py)\<close>

text \<open>
  \<^verbatim>\<open>CellType\<close> is the enumeration of cell contents. A planet owns a dense array
  \<^verbatim>\<open>grid\<close> of shape \<^verbatim>\<open>(width, height)\<close>, read as \<^verbatim>\<open>grid[x, y]\<close>: a list of
  \<^verbatim>\<open>width\<close> columns, each a list of \<^verbatim>\<open>height\<close> cells. Width and height are natural
  numbers, since no array of a negative size can be built. Exceptions are values of
  \<open>error\<close>; every operation returns \<open>error + result\<close>.
\<close>

datatype CellType = EMPTY | WATER | MINERAL | OBSTACLE | ACCIDENT

datatype error = ValueError | KeyError | ZeroDivisionError | IndexError

record Planet =
  name :: string
  width :: nat
  height :: nat
  grid :: "CellType list list"

text \<open>
  The shape that \<^verbatim>\<open>Planet.__init__\<close> gives the grid, for a planet of at least one cell.
\<close>

definition wf_planet :: "Planet \<Rightarrow> bool" where
  "wf_planet p \<longleftrightarrow>
     0 < width p \<and> 0 < height p \<and> length (grid p) = width p \<and>
     list_all (\<lambda>col. length col = height p) (grid p)"

text \<open>Reading and writing \<^verbatim>\<open>grid[x, y]\<close>; an index outside the array raises.\<close>

definition grid_get :: "CellType list list \<Rightarrow> int \<Rightarrow> int \<Rightarrow> error + CellType" where
  "grid_get g x y =
     (if 0 \<le> x \<and> nat x < length g \<and> 0 \<le> y \<and> nat y < length (g ! nat x)
      then Inr (g ! nat x ! nat y) else Inl IndexError)"

definition grid_set :: "CellType list list \<Rightarrow> int \<Rightarrow> int \<Rightarrow> CellType \<Rightarrow> error + CellType list list" where
  "grid_set g x y c =
     (if 0 \<le> x \<and> nat x < length g \<and> 0 \<le> y \<and> nat y < length (g ! nat x)
      then Inr (g[nat x := (g ! nat x)[nat y := c]]) else Inl IndexError)"

text \<open>
  \<^verbatim>\<open>x, y = pos[0] % self.width, pos[1] % self.height\<close>: Python's remainder has the sign
  of the divisor, as \<open>mod\<close> on \<open>int\<close> has; a zero divisor is an error.
\<close>

definition wrap :: "Planet \<Rightarrow> int \<times> int \<Rightarrow> error + int \<times> int" where
  "wrap p pos =
     (if width p = 0 \<or> height p = 0 then Inl ZeroDivisionError
      else Inr (fst pos mod int (width p), snd pos mod int (height p)))"

definition get_cell :: "Planet \<Rightarrow> int \<times> int \<Rightarrow> error + CellType" where
  "get_cell p pos =
     (case wrap p pos of
        Inl e \<Rightarrow> Inl e
      | Inr (x, y) \<Rightarrow> grid_get (grid p) x y)"

definition empty_cell :: "Planet \<Rightarrow> int \<times> int \<Rightarrow> error + bool \<times> Planet" where
  "empty_cell p pos =
     (case wrap p pos of
        Inl e \<Rightarrow> Inl e
      | Inr (x, y) \<Rightarrow>
          (case grid_get (grid p) x y of
             Inl e \<Rightarrow> Inl e
           | Inr cell \<Rightarrow>
               if cell = WATER \<or> cell = MINERAL then
                 (case grid_set (grid p) x y EMPTY of
                    Inl e \<Rightarrow> Inl e
                  | Inr g \<Rightarrow> Inr (True, p\<lparr>grid := g\<rparr>))
               else Inr (False, p)))"

section \<open>Rover: position, load and behaviour state (classes/rover.py)\<close>

text \<open>
  A rover holds its location (a pair of integers), its state, and two dictionaries keyed
  by \<^verbatim>\<open>"WATER"\<close> and \<^verbatim>\<open>"MINERAL"\<close>: the load counters and the lists of locations where
  each resource was found. Every rover of a fleet refers to the same planet object, so
  the planet is passed to each operation and returned when the operation changes it.
  The location is a numpy array of two signed 64-bit integers. The model keeps each
  coordinate as an integer within that range, and \<open>int64\<close> writes out the wrap-around of
  an addition in such an array: \<^verbatim>\<open>self.location + np.array([dx, dy])\<close> is reduced
  into the range from \<open>- 2 ^ 63\<close> to \<open>2 ^ 63 - 1\<close> before the remainder by the
  planet's dimensions is taken.
\<close>

definition int64 :: "int \<Rightarrow> int" where
  "int64 z = (z + 2 ^ 63) mod 2 ^ 64 - 2 ^ 63"

datatype RoverState = EXPLORING | GATHERING | LOST

record Rover =
  rover_id :: int
  location :: "int \<times> int"
  state :: RoverState
  load :: "string \<rightharpoonup> int"
  findings_locations :: "string \<rightharpoonup> (int \<times> int) list"

definition Rover_init :: "int \<Rightarrow> int \<Rightarrow> int \<Rightarrow> Rover" where
  "Rover_init rid w h =
     \<lparr>rover_id = rid, location = (w, h), state = EXPLORING,
      load = [''WATER'' \<mapsto> 0, ''MINERAL'' \<mapsto> 0],
      findings_locations = [''WATER'' \<mapsto> [], ''MINERAL'' \<mapsto> []]\<rparr>"


definition movements :: "string \<rightharpoonup> int \<times> int" where
  "movements = [''N'' \<mapsto> (0, 1), ''S'' \<mapsto> (0, - 1), ''E'' \<mapsto> (1, 0), ''W'' \<mapsto> (- 1, 0)]"

definition update_state :: "Planet \<Rightarrow> Rover \<Rightarrow> error + Rover" where
  "update_state p r =
     (case get_cell p (location r) of
        Inl e \<Rightarrow> Inl e
      | Inr cell \<Rightarrow>
          if cell = WATER \<or> cell = MINERAL then Inr (r\<lparr>state := GATHERING\<rparr>)
          else if cell = ACCIDENT then Inr (r\<lparr>state := LOST\<rparr>)
          else Inr (r\<lparr>state := EXPLORING\<rparr>))"

definition move :: "Planet \<Rightarrow> Rover \<Rightarrow> string \<Rightarrow> error + bool \<times> Rover" where
  "move p r direction =
     (case movements direction of
        None \<Rightarrow> Inl KeyError
      | Some (dx, dy) \<Rightarrow>
          (case wrap p (int64 (fst (location r) + dx), int64 (snd (location r) + dy)) of
             Inl e \<Rightarrow> Inl e
           | Inr new_location \<Rightarrow>
               (case get_cell p new_location of
                  Inl e \<Rightarrow> Inl e
                | Inr cell \<Rightarrow>
                    if cell = OBSTACLE then Inr (False, r)
                    else (case update_state p (r\<lparr>location := new_location\<rparr>) of
                            Inl e \<Rightarrow> Inl e
                          | Inr r' \<Rightarrow> Inr (True, r')))))"

text \<open>
  In each resource branch the source runs \<^verbatim>\<open>self.load[k] += 1\<close>, then
  \<^verbatim>\<open>self.planet.empty_cell(self.location)\<close>, then
  \<^verbatim>\<open>self.findings_locations[k].append(self.location)\<close>.
\<close>

definition gather :: "Planet \<Rightarrow> Rover \<Rightarrow> error + Planet \<times> Rover" where
  "gather p r =
     (case get_cell p (location r) of
        Inl e \<Rightarrow> Inl e
      | Inr cell \<Rightarrow>
          if cell = WATER then
            (case load r ''WATER'' of
               None \<Rightarrow> Inl KeyError
             | Some n \<Rightarrow>
                 (case empty_cell p (location r) of
                    Inl e \<Rightarrow> Inl e
                  | Inr (_, p') \<Rightarrow>
                      (case findings_locations r ''WATER'' of
                         None \<Rightarrow> Inl KeyError
                       | Some found \<Rightarrow>
                           Inr (p', r\<lparr>load := (load r)(''WATER'' \<mapsto> n + 1),
                                      findings_locations :=
                                        (findings_locations r)(''WATER'' \<mapsto> found @ [location r])\<rparr>))))
          else if cell = MINERAL then
            (case load r ''MINERAL'' of
               None \<Rightarrow> Inl KeyError
             | Some n \<Rightarrow>
                 (case empty_cell p (location r) of
                    Inl e \<Rightarrow> Inl e
                  | Inr (_, p') \<Rightarrow>
                      (case findings_locations r ''MINERAL'' of
                         None \<Rightarrow> Inl KeyError
                       | Some found \<Rightarrow>
                           Inr (p', r\<lparr>load := (load r)(''MINERAL'' \<mapsto> n + 1),
                                      findings_locations :=
                                        (findings_locations r)(''MINERAL'' \<mapsto> found @ [location r])\<rparr>))))
          else Inr (p, r))"

section \<open>Fleet: the rovers of one exploration and their scheduling (sim.py)\<close>

text \<open>
  A fleet holds the planet, its rovers and three counters. The simulation environment
  and the unused \<^verbatim>\<open>quadrants\<close> are left out; \<^verbatim>\<open>np.array_split\<close> refuses a number of
  sections that is not positive, which is the only way the constructor fails.
  Rover \<open>i\<close> is created at \<^verbatim>\<open>((i * width) // num_rovers + distance, (i * height) // num_rovers)\<close>
  with identifier \<open>i + 1\<close>; the constructor registers the rovers' processes and runs none.
\<close>

record Fleet =
  planet :: Planet
  rovers :: "Rover list"
  lost_rovers :: int
  water_total :: int
  mineral_total :: int

definition Fleet_init :: "Planet \<Rightarrow> int \<Rightarrow> int \<Rightarrow> error + Fleet" where
  "Fleet_init pl num_rovers distance =
     (if num_rovers \<le> 0 then Inl ValueError
      else Inr \<lparr>planet = pl,
                rovers = map (\<lambda>i. Rover_init (int i + 1)
                                   ((int i * int (width pl)) div num_rovers + distance)
                                   ((int i * int (height pl)) div num_rovers))
                             [0..<nat num_rovers],
                lost_rovers = 0, water_total = 0, mineral_total = 0\<rparr>)"

text \<open>
  \<^verbatim>\<open>np.random.choice(xs)\<close> returns one element of \<open>xs\<close>. The generator's global state is
  the stream of the raw draws still to come; a draw selects the element at its
  remainder by the length of \<open>xs\<close>.
\<close>

definition np_random_choice :: "'a list \<Rightarrow> nat stream \<Rightarrow> 'a \<times> nat stream" where
  "np_random_choice xs s = (xs ! (shd s mod length xs), stl s)"

text \<open>
  One pass through the body of the \<^verbatim>\<open>while\<close> loop of \<^verbatim>\<open>rover_behavior\<close> for the rover
  at index \<open>i\<close>, from the loop test to the \<^verbatim>\<open>yield\<close>. When the test fails the process
  has ended and nothing happens.
\<close>

definition rover_behavior :: "nat \<Rightarrow> Fleet \<times> nat stream \<Rightarrow> error + Fleet \<times> nat stream" where
  "rover_behavior i fs =
     (let f = fst fs; s = snd fs; rover = rovers f ! i in
      if state rover = LOST then Inr (f, s)
      else
        (case (if state rover = GATHERING then
                 (case get_cell (planet f) (location rover) of
                    Inl e \<Rightarrow> Inl e
                  | Inr cell_before \<Rightarrow>
                      (case gather (planet f) rover of
                         Inl e \<Rightarrow> Inl e
                       | Inr (p', rover') \<Rightarrow>
                           (case get_cell p' (location rover') of
                              Inl e \<Rightarrow> Inl e
                            | Inr cell_after \<Rightarrow>
                                (let f' = f\<lparr>planet := p', rovers := (rovers f)[i := rover']\<rparr> in
                                 if cell_before \<noteq> cell_after then
                                   if cell_before = WATER
                                   then Inr (f'\<lparr>water_total := water_total f' + 1\<rparr>)
                                   else if cell_before = MINERAL
                                   then Inr (f'\<lparr>mineral_total := mineral_total f' + 1\<rparr>)
                                   else Inr f'
                                 else Inr f'))))
               else Inr f) of
           Inl e \<Rightarrow> Inl e
         | Inr f1 \<Rightarrow>
             (case np_random_choice [''N'', ''S'', ''E'', ''W''] s of
                (direction, s') \<Rightarrow>
                  (case move (planet f1) (rovers f1 ! i) direction of
                     Inl e \<Rightarrow> Inl e
                   | Inr (_, rover2) \<Rightarrow>
                       (let f2 = f1\<lparr>rovers := (rovers f1)[i := rover2]\<rparr> in
                        Inr (if state rover2 = LOST
                             then f2\<lparr>lost_rovers := lost_rovers f2 + 1\<rparr> else f2, s'))))))"

text \<open>
  One unit of simulated time: the environment resumes the processes in the order in which
  they were created, so the rovers act once each, by index. \<^verbatim>\<open>env.run(until=n)\<close> with
  the clock at zero runs the units \<open>0\<close> to \<open>n - 1\<close>. An exception in a process ends the
  run.
\<close>

fun tick_from :: "nat list \<Rightarrow> Fleet \<times> nat stream \<Rightarrow> error + Fleet \<times> nat stream" where
  "tick_from [] fs = Inr fs"
| "tick_from (i # is) fs =
     (case rover_behavior i fs of
        Inl e \<Rightarrow> Inl e
      | Inr fs' \<Rightarrow> tick_from is fs')"

definition tick :: "Fleet \<times> nat stream \<Rightarrow> error + Fleet \<times> nat stream" where
  "tick fs = tick_from [0..<length (rovers (fst fs))] fs"

fun run :: "nat \<Rightarrow> Fleet \<times> nat stream \<Rightarrow> error + Fleet \<times> nat stream" where
  "run 0 fs = Inr fs"
| "run (Suc n) fs =
     (case tick fs of
        Inl e \<Rightarrow> Inl e
      | Inr fs' \<Rightarrow> run n fs')"

section \<open>Properties of rovers and fleets used in the statements\<close>

text \<open>
  For each resource, the rover's counter is the number of locations recorded for it.
\<close>

definition findings_match_load :: "Rover \<Rightarrow> bool" where
  "findings_match_load r =
     (case (load r ''WATER'', findings_locations r ''WATER'',
            load r ''MINERAL'', findings_locations r ''MINERAL'') of
        (Some w, Some fw, Some m, Some fm) \<Rightarrow> w = int (length fw) \<and> m = int (length fm)
      | _ \<Rightarrow> False)"



section \<open>Planets used as concrete inputs\<close>

definition planet_2x3 :: Planet where
  "planet_2x3 = \<lparr>name = ''P'', width = 2, height = 3,
     grid = [[EMPTY, WATER, MINERAL], [OBSTACLE, ACCIDENT, EMPTY]]\<rparr>"

definition water_planet :: Planet where
  "water_planet = \<lparr>name = ''W'', width = 1, height = 1, grid = [[WATER]]\<rparr>"

definition mineral_planet :: Planet where
  "mineral_planet = \<lparr>name = ''M'', width = 1, height = 1, grid = [[MINERAL]]\<rparr>"

definition hazard_planet :: Planet where
  "hazard_planet = \<lparr>name = ''H'', width = 2, height = 1, grid = [[ACCIDENT], [EMPTY]]\<rparr>"

text \<open>
  The rover that \<open>Rover_init 1 1 0\<close> becomes by moving west onto the accident cell of
  \<open>hazard_planet\<close>, and a fleet holding it.
\<close>

definition lost_rover :: Rover where
  "lost_rover = (Rover_init 1 1 0)\<lparr>location := (0, 0), state := LOST\<rparr>"

definition lost_fleet :: Fleet where
  "lost_fleet = \<lparr>planet = hazard_planet, rovers = [lost_rover], lost_rovers = 1,
                  water_total = 0, mineral_total = 0\<rparr>"

text \<open>The fleet of one rover that \<open>Fleet_init water_planet 1 0\<close> builds.\<close>

definition water_fleet :: Fleet where
  "water_fleet = \<lparr>planet = water_planet, rovers = [Rover_init 1 0 0], lost_rovers = 0,
                   water_total = 0, mineral_total = 0\<rparr>"

section \<open>Reading a well-formed grid\<close>

lemma wrap_wf:
  "wf_planet p \<Longrightarrow>
   wrap p pos = Inr (fst pos mod int (width p), snd pos mod int (height p))"
  by (simp add: wrap_def wf_planet_def)

lemma wrapped_in_grid:
  assumes "wf_planet p"
  shows "nat (x mod int (width p)) < length (grid p)"
    and "nat (y mod int (height p)) < length (grid p ! nat (x mod int (width p)))"
proof -
  from assms have W: "0 < int (width p)" and H: "0 < int (height p)"
    and len: "length (grid p) = width p"
    and cols: "\<forall>col \<in> set (grid p). length col = height p"
    by (simp_all add: wf_planet_def list_all_iff)
  have x0: "0 \<le> x mod int (width p)" and x1: "x mod int (width p) < int (width p)"
    using W by simp_all
  have y0: "0 \<le> y mod int (height p)" and y1: "y mod int (height p) < int (height p)"
    using H by simp_all
  show xl: "nat (x mod int (width p)) < length (grid p)"
    using x0 x1 len by linarith
  then have "length (grid p ! nat (x mod int (width p))) = height p"
    using cols by simp
  then show "nat (y mod int (height p)) < length (grid p ! nat (x mod int (width p)))"
    using y0 y1 by linarith
qed

lemma grid_get_wf:
  assumes "wf_planet p"
  shows "grid_get (grid p) (x mod int (width p)) (y mod int (height p)) =
         Inr (grid p ! nat (x mod int (width p)) ! nat (y mod int (height p)))"
proof -
  from assms have "0 < int (width p)" and "0 < int (height p)"
    by (simp_all add: wf_planet_def)
  then have "0 \<le> x mod int (width p)" and "0 \<le> y mod int (height p)"
    by simp_all
  then show ?thesis
    unfolding grid_get_def using wrapped_in_grid [OF assms] by simp
qed

lemma get_cell_wf:
  "wf_planet p \<Longrightarrow>
   get_cell p pos =
     Inr (grid p ! nat (fst pos mod int (width p)) ! nat (snd pos mod int (height p)))"
  by (simp add: get_cell_def wrap_wf grid_get_wf)

section \<open>Toroidal reading\<close>

text \<open>
  C4. On a planet of width \<open>W \<ge> 1\<close> and height \<open>H \<ge> 1\<close>, \<open>get_cell\<close> returns a cell for
  all integers \<open>x\<close> and \<open>y\<close>, negative ones and ones beyond the grid included; the
  remainders \<open>x mod W\<close> and \<open>y mod H\<close> are the non-negative ones, and reading at
  \<open>(x, y)\<close> is reading at \<open>(x mod W, y mod H)\<close>.
\<close>

theorem C4_get_cell_wraps:
  assumes "wf_planet p"
  shows "(\<exists>c. get_cell p (x, y) = Inr c) \<and>
         0 \<le> x mod int (width p) \<and> x mod int (width p) < int (width p) \<and>
         0 \<le> y mod int (height p) \<and> y mod int (height p) < int (height p) \<and>
         get_cell p (x, y) = get_cell p (x mod int (width p), y mod int (height p))"
  using assms by (simp add: get_cell_wf wf_planet_def)

theorem C4_get_cell_wraps_witness:
  "wf_planet planet_2x3 \<and> get_cell planet_2x3 (- 1, 4) = Inr ACCIDENT \<and>
   get_cell planet_2x3 (- 1, 4) = get_cell planet_2x3 (1, 1)"
proof -
  have wf: "wf_planet planet_2x3"
    by (simp add: planet_2x3_def wf_planet_def)
  have "get_cell planet_2x3 (1, 1) = Inr ACCIDENT"
    by (simp add: planet_2x3_def get_cell_def wrap_def grid_get_def)
  with wf C4_get_cell_wraps [OF wf, of "- 1" 4] show ?thesis
    by (simp add: planet_2x3_def)
qed

section \<open>Clearing a cell\<close>

lemma empty_cell_wf:
  assumes "wf_planet p"
  shows "empty_cell p pos =
     (let x = nat (fst pos mod int (width p)); y = nat (snd pos mod int (height p)) in
      if grid p ! x ! y = WATER \<or> grid p ! x ! y = MINERAL
      then Inr (True, p\<lparr>grid := (grid p)[x := (grid p ! x)[y := EMPTY]]\<rparr>)
      else Inr (False, p))"
proof -
  from assms have "0 < int (width p)" and "0 < int (height p)"
    by (simp_all add: wf_planet_def)
  then have "0 \<le> fst pos mod int (width p)" and "0 \<le> snd pos mod int (height p)"
    by simp_all
  then show ?thesis
    using wrapped_in_grid [OF assms]
    by (simp add: empty_cell_def wrap_wf [OF assms] grid_get_wf [OF assms] grid_set_def Let_def)
qed

lemma wf_planet_update:
  assumes "wf_planet p"
  shows "wf_planet (p\<lparr>grid := (grid p)[x := (grid p ! x)[y := c]]\<rparr>)"
proof -
  from assms have cols: "\<forall>col \<in> set (grid p). length col = height p"
    by (simp add: wf_planet_def list_all_iff)
  have "\<forall>col \<in> set ((grid p)[x := (grid p ! x)[y := c]]). length col = height p"
  proof
    fix col assume "col \<in> set ((grid p)[x := (grid p ! x)[y := c]])"
    then have "col \<in> insert ((grid p ! x)[y := c]) (set (grid p))"
      using set_update_subset_insert by fastforce
    then show "length col = height p"
    proof
      assume col: "col = (grid p ! x)[y := c]"
      show ?thesis
      proof (cases "x < length (grid p)")
        case True
        then show ?thesis using cols col by simp
      next
        case False
        then have "(grid p)[x := (grid p ! x)[y := c]] = grid p"
          by (simp add: list_update_beyond not_less)
        with \<open>col \<in> set ((grid p)[x := (grid p ! x)[y := c]])\<close> cols show ?thesis by simp
      qed
    next
      assume "col \<in> set (grid p)"
      with cols show ?thesis by simp
    qed
  qed
  with assms show ?thesis
    by (simp add: wf_planet_def list_all_iff)
qed

lemma get_cell_update:
  assumes "wf_planet p"
  shows "get_cell (p\<lparr>grid := (grid p)[nat (fst pos mod int (width p)) :=
                        (grid p ! nat (fst pos mod int (width p)))[nat (snd pos mod int (height p)) := c]]\<rparr>) q =
         (if wrap p q = wrap p pos then Inr c else get_cell p q)"
proof -
  let ?x = "fst pos mod int (width p)" and ?y = "snd pos mod int (height p)"
  let ?x' = "fst q mod int (width p)" and ?y' = "snd q mod int (height p)"
  let ?p' = "p\<lparr>grid := (grid p)[nat ?x := (grid p ! nat ?x)[nat ?y := c]]\<rparr>"
  from assms have W: "0 < int (width p)" and H: "0 < int (height p)"
    by (simp_all add: wf_planet_def)
  have nn: "0 \<le> ?x" "0 \<le> ?y" "0 \<le> ?x'" "0 \<le> ?y'"
    using W H by simp_all
  have wf': "wf_planet ?p'" by (rule wf_planet_update [OF assms])
  have in1: "nat ?x < length (grid p)" "nat ?y < length (grid p ! nat ?x)"
    using wrapped_in_grid [OF assms] by simp_all
  have in2: "nat ?x' < length (grid p)" "nat ?y' < length (grid p ! nat ?x')"
    using wrapped_in_grid [OF assms] by simp_all
  have eqx: "(nat ?x' = nat ?x) = (?x' = ?x)" using nn by linarith
  have eqy: "(nat ?y' = nat ?y) = (?y' = ?y)" using nn by linarith
  have rd: "get_cell ?p' q = Inr (grid ?p' ! nat ?x' ! nat ?y')"
    using get_cell_wf [OF wf', of q] by simp
  have "grid ?p' ! nat ?x' ! nat ?y' =
      (if ?x' = ?x \<and> ?y' = ?y then c else grid p ! nat ?x' ! nat ?y')"
  proof (cases "?x' = ?x")
    case False
    then have "nat ?x \<noteq> nat ?x'" using eqx by simp
    then show ?thesis using False by simp
  next
    case True
    then have col: "grid ?p' ! nat ?x' = (grid p ! nat ?x)[nat ?y := c]"
      using in1(1) by simp
    show ?thesis
    proof (cases "?y' = ?y")
      case False
      then have "nat ?y \<noteq> nat ?y'" using eqy by simp
      then show ?thesis using False True col by simp
    next
      case y: True
      then show ?thesis using True col in1(2) by simp
    qed
  qed
  with rd show ?thesis
    by (simp add: wrap_wf [OF assms] get_cell_wf [OF assms])
qed

lemma empty_cell_effect:
  assumes "wf_planet p" and "get_cell p pos = Inr c"
  shows "\<exists>p'. empty_cell p pos = Inr (c = WATER \<or> c = MINERAL, p') \<and>
           wf_planet p' \<and> name p' = name p \<and> width p' = width p \<and> height p' = height p \<and>
           (c \<noteq> WATER \<and> c \<noteq> MINERAL \<longrightarrow> p' = p) \<and>
           (c = WATER \<or> c = MINERAL \<longrightarrow>
              (\<forall>q. get_cell p' q = (if wrap p q = wrap p pos then Inr EMPTY else get_cell p q))) \<and>
           empty_cell p' pos = Inr (False, p')"
proof -
  let ?x = "nat (fst pos mod int (width p))" and ?y = "nat (snd pos mod int (height p))"
  have c: "grid p ! ?x ! ?y = c"
    using assms by (simp add: get_cell_wf)
  show ?thesis
  proof (cases "c = WATER \<or> c = MINERAL")
    case False
    then have "empty_cell p pos = Inr (False, p)"
      using c by (simp add: empty_cell_wf [OF assms(1)] Let_def)
    with False assms(1) show ?thesis by simp
  next
    case True
    let ?p' = "p\<lparr>grid := (grid p)[?x := (grid p ! ?x)[?y := EMPTY]]\<rparr>"
    have e1: "empty_cell p pos = Inr (True, ?p')"
      using c True by (simp add: empty_cell_wf [OF assms(1)] Let_def)
    have wf': "wf_planet ?p'" by (rule wf_planet_update [OF assms(1)])
    have g: "\<forall>q. get_cell ?p' q = (if wrap p q = wrap p pos then Inr EMPTY else get_cell p q)"
      using get_cell_update [OF assms(1)] by simp
    have "get_cell ?p' pos = Inr EMPTY"
      using get_cell_update [OF assms(1), of pos EMPTY pos] by simp
    then have "grid ?p' ! nat (fst pos mod int (width ?p')) ! nat (snd pos mod int (height ?p')) = EMPTY"
      using get_cell_wf [OF wf', of pos] by simp
    then have e2: "empty_cell ?p' pos = Inr (False, ?p')"
      by (simp add: empty_cell_wf [OF wf'] Let_def)
    have res: "(c = WATER \<or> c = MINERAL) = True" "(c \<noteq> WATER \<and> c \<noteq> MINERAL) = False"
      using True by simp_all
    show ?thesis
      unfolding res using e1 wf' g e2 by (intro exI [of _ ?p']) simp
  qed
qed

text \<open>
  C3 (as amended). For every position, \<open>empty_cell\<close> on a well-formed planet returns the
  flag \<open>True\<close> exactly when the wrapped cell holds water or mineral, and then that cell
  alone becomes empty; otherwise it returns \<open>False\<close> and the planet is unchanged. The
  flag does not tell which resource was cleared. A second call at the same position
  returns \<open>False\<close> and changes nothing, the cell staying empty.
\<close>

theorem C3_empty_cell:
  assumes "wf_planet p" and "get_cell p pos = Inr c"
  shows "\<exists>p'. empty_cell p pos = Inr (c = WATER \<or> c = MINERAL, p') \<and>
           wf_planet p' \<and> name p' = name p \<and> width p' = width p \<and> height p' = height p \<and>
           (c \<noteq> WATER \<and> c \<noteq> MINERAL \<longrightarrow> p' = p) \<and>
           (c = WATER \<or> c = MINERAL \<longrightarrow>
              (\<forall>q. get_cell p' q = (if wrap p q = wrap p pos then Inr EMPTY else get_cell p q))) \<and>
           empty_cell p' pos = Inr (False, p')"
  using assms by (rule empty_cell_effect)

theorem C3_empty_cell_witness:
  "wf_planet planet_2x3 \<and> get_cell planet_2x3 (- 2, 4) = Inr WATER \<and>
   map_sum id fst (empty_cell planet_2x3 (- 2, 4)) = Inr True \<and>
   (case empty_cell planet_2x3 (- 2, 4) of
      Inl e \<Rightarrow> False
    | Inr (b, p') \<Rightarrow>
        get_cell p' (0, 1) = Inr EMPTY \<and> get_cell p' (0, 2) = Inr MINERAL \<and>
        empty_cell p' (- 2, 4) = Inr (False, p'))"
proof -
  have wf: "wf_planet planet_2x3"
    by (simp add: planet_2x3_def wf_planet_def)
  have gc: "get_cell planet_2x3 (- 2, 4) = Inr WATER"
    by (simp add: planet_2x3_def get_cell_def wrap_def grid_get_def)
  have g2: "get_cell planet_2x3 (0, 2) = Inr MINERAL"
    by (simp add: planet_2x3_def get_cell_def wrap_def grid_get_def)
  have w1: "wrap planet_2x3 (0, 1) = wrap planet_2x3 (- 2, 4)"
    and w2: "wrap planet_2x3 (0, 2) \<noteq> wrap planet_2x3 (- 2, 4)"
    by (simp_all add: planet_2x3_def wrap_def)
  from C3_empty_cell [OF wf gc] obtain p' where
    e: "empty_cell planet_2x3 (- 2, 4) = Inr (True, p')"
    and g: "\<forall>q. get_cell p' q =
              (if wrap planet_2x3 q = wrap planet_2x3 (- 2, 4) then Inr EMPTY
               else get_cell planet_2x3 q)"
    and e2: "empty_cell p' (- 2, 4) = Inr (False, p')"
    by auto
  have "get_cell p' (0, 1) = Inr EMPTY" and "get_cell p' (0, 2) = Inr MINERAL"
    using g w1 w2 g2 by simp_all
  with wf gc e e2 show ?thesis by simp
qed

theorem C3_harvest_kind_counterexample:
  "get_cell water_planet (0, 0) = Inr WATER \<and>
   get_cell mineral_planet (0, 0) = Inr MINERAL \<and>
   map_sum id fst (empty_cell water_planet (0, 0)) = Inr True \<and>
   map_sum id fst (empty_cell mineral_planet (0, 0)) = Inr True"
  by (simp add: water_planet_def mineral_planet_def get_cell_def empty_cell_def wrap_def
        grid_get_def grid_set_def)

section \<open>Moving\<close>

lemma movements_cardinal:
  "movements ''N'' = Some (0, 1)" "movements ''S'' = Some (0, - 1)"
  "movements ''E'' = Some (1, 0)" "movements ''W'' = Some (- 1, 0)"
  by (simp_all add: movements_def)

lemma update_state_wf:
  assumes "wf_planet p" and "get_cell p (location r) = Inr c"
  shows "update_state p r =
         Inr (r\<lparr>state := (if c = WATER \<or> c = MINERAL then GATHERING
                           else if c = ACCIDENT then LOST else EXPLORING)\<rparr>)"
  using assms by (simp add: update_state_def)

lemma get_cell_wrapped:
  assumes "wf_planet p"
  shows "get_cell p (x mod int (width p), y mod int (height p)) = get_cell p (x, y)"
  using assms by (simp add: get_cell_wf)

lemma int64_in_range:
  assumes "- (2 ^ 63) \<le> z" and "z < 2 ^ 63"
  shows "int64 z = z"
proof -
  have "0 \<le> z + 2 ^ 63" and "z + 2 ^ 63 < 2 ^ 64"
    using assms by simp_all
  then have "(z + 2 ^ 63) mod 2 ^ 64 = z + 2 ^ 63"
    by (rule mod_pos_pos_trivial)
  then show ?thesis by (simp add: int64_def)
qed

lemma move_wf:
  assumes "wf_planet p" and "movements d = Some (dx, dy)"
    and "get_cell p (int64 (fst (location r) + dx), int64 (snd (location r) + dy)) = Inr c"
  shows "move p r d =
         (if c = OBSTACLE then Inr (False, r)
          else Inr (True, r\<lparr>location := (int64 (fst (location r) + dx) mod int (width p),
                                           int64 (snd (location r) + dy) mod int (height p)),
                            state := (if c = WATER \<or> c = MINERAL then GATHERING
                                      else if c = ACCIDENT then LOST else EXPLORING)\<rparr>))"
proof -
  let ?new = "(int64 (fst (location r) + dx) mod int (width p),
               int64 (snd (location r) + dy) mod int (height p))"
  have w: "wrap p (int64 (fst (location r) + dx), int64 (snd (location r) + dy)) = Inr ?new"
    using assms(1) by (simp add: wrap_wf)
  have g: "get_cell p ?new = Inr c"
    using assms(1,3) by (simp add: get_cell_wrapped)
  then have "get_cell p (location (r\<lparr>location := ?new\<rparr>)) = Inr c"
    by simp
  from update_state_wf [OF assms(1) this]
  have u: "update_state p (r\<lparr>location := ?new\<rparr>) =
           Inr (r\<lparr>location := ?new,
                  state := (if c = WATER \<or> c = MINERAL then GATHERING
                            else if c = ACCIDENT then LOST else EXPLORING)\<rparr>)"
    by simp
  show ?thesis
    unfolding move_def by (simp only: assms(2) w g u option.case prod.case sum.case)
qed

text \<open>
  C5. For every rover whose coordinates lie strictly inside the 64-bit range, so that
  adding a unit vector does not overflow, and every cardinal direction (north \<open>+y\<close>,
  south \<open>-y\<close>, east \<open>+x\<close>, west \<open>-x\<close>) on a well-formed planet: the candidate is the
  location plus the unit vector, wrapped; if the candidate cell is an obstacle, \<open>move\<close>
  returns \<open>False\<close> and the rover is unchanged; otherwise it returns \<open>True\<close>, the
  location is the wrapped candidate and the state is \<open>GATHERING\<close> on water or mineral,
  \<open>LOST\<close> on an accident cell and \<open>EXPLORING\<close> on any other; nothing else of the rover
  changes.
\<close>

theorem C5_move:
  assumes "wf_planet p" and "d \<in> {''N'', ''S'', ''E'', ''W''}"
    and "- (2 ^ 63) < fst (location r)" and "fst (location r) < 2 ^ 63 - 1"
    and "- (2 ^ 63) < snd (location r)" and "snd (location r) < 2 ^ 63 - 1"
  shows "\<exists>dx dy c.
           movements d = Some (dx, dy) \<and>
           (dx, dy) = (if d = ''N'' then (0, 1) else if d = ''S'' then (0, - 1)
                       else if d = ''E'' then (1, 0) else (- 1, 0)) \<and>
           get_cell p ((fst (location r) + dx) mod int (width p),
                       (snd (location r) + dy) mod int (height p)) = Inr c \<and>
           move p r d =
             (if c = OBSTACLE then Inr (False, r)
              else Inr (True, r\<lparr>location := ((fst (location r) + dx) mod int (width p),
                                               (snd (location r) + dy) mod int (height p)),
                                state := (if c = WATER \<or> c = MINERAL then GATHERING
                                          else if c = ACCIDENT then LOST else EXPLORING)\<rparr>))"
proof -
  obtain dx dy where m: "movements d = Some (dx, dy)"
    and v: "(dx, dy) = (if d = ''N'' then (0, 1) else if d = ''S'' then (0, - 1)
                        else if d = ''E'' then (1, 0) else (- 1, 0))"
    using assms(2) movements_cardinal by auto
  from v have unit: "- 1 \<le> dx" "dx \<le> 1" "- 1 \<le> dy" "dy \<le> 1"
    by (auto split: if_splits)
  have x: "int64 (fst (location r) + dx) = fst (location r) + dx"
    using assms(3,4) unit by (intro int64_in_range) linarith+
  have y: "int64 (snd (location r) + dy) = snd (location r) + dy"
    using assms(5,6) unit by (intro int64_in_range) linarith+
  obtain c where c: "get_cell p (fst (location r) + dx, snd (location r) + dy) = Inr c"
    using get_cell_wf [OF assms(1)] by blast
  then have c': "get_cell p ((fst (location r) + dx) mod int (width p),
                            (snd (location r) + dy) mod int (height p)) = Inr c"
    using assms(1) by (simp add: get_cell_wrapped)
  from c have "get_cell p (int64 (fst (location r) + dx), int64 (snd (location r) + dy)) = Inr c"
    by (simp only: x y)
  from move_wf [OF assms(1) m this]
  have "move p r d =
             (if c = OBSTACLE then Inr (False, r)
              else Inr (True, r\<lparr>location := ((fst (location r) + dx) mod int (width p),
                                               (snd (location r) + dy) mod int (height p)),
                                state := (if c = WATER \<or> c = MINERAL then GATHERING
                                          else if c = ACCIDENT then LOST else EXPLORING)\<rparr>))"
    by (simp only: x y)
  with m v c' show ?thesis by blast
qed

theorem C5_move_witness:
  "wf_planet planet_2x3 \<and> ''W'' \<in> {''N'', ''S'', ''E'', ''W''} \<and>
   - (2 ^ 63) < fst (location (Rover_init 1 0 1)) \<and>
   fst (location (Rover_init 1 0 1)) < 2 ^ 63 - 1 \<and>
   - (2 ^ 63) < snd (location (Rover_init 1 0 1)) \<and>
   snd (location (Rover_init 1 0 1)) < 2 ^ 63 - 1 \<and>
   move planet_2x3 (Rover_init 1 0 1) ''W'' =
     Inr (True, (Rover_init 1 0 1)\<lparr>location := (1, 1), state := LOST\<rparr>) \<and>
   ''S'' \<in> {''N'', ''S'', ''E'', ''W''} \<and>
   - (2 ^ 63) < fst (location (Rover_init 1 1 1)) \<and>
   fst (location (Rover_init 1 1 1)) < 2 ^ 63 - 1 \<and>
   - (2 ^ 63) < snd (location (Rover_init 1 1 1)) \<and>
   snd (location (Rover_init 1 1 1)) < 2 ^ 63 - 1 \<and>
   move planet_2x3 (Rover_init 1 1 1) ''S'' = Inr (False, Rover_init 1 1 1)"
proof -
  have wf: "wf_planet planet_2x3"
    by (simp add: planet_2x3_def wf_planet_def)
  have dW: "''W'' \<in> {''N'', ''S'', ''E'', ''W''}" and dS: "''S'' \<in> {''N'', ''S'', ''E'', ''W''}"
    by simp_all
  have g1: "get_cell planet_2x3 (1, 1) = Inr ACCIDENT"
    and g2: "get_cell planet_2x3 (1, 0) = Inr OBSTACLE"
    by (simp_all add: planet_2x3_def get_cell_def wrap_def grid_get_def)
  have l: "location (Rover_init 1 0 1) = (0, 1)" "location (Rover_init 1 1 1) = (1, 1)"
    by (simp_all add: Rover_init_def)
  have ra: "- (2 ^ 63) < fst (location (Rover_init 1 0 1))"
    "fst (location (Rover_init 1 0 1)) < 2 ^ 63 - 1"
    "- (2 ^ 63) < snd (location (Rover_init 1 0 1))"
    "snd (location (Rover_init 1 0 1)) < 2 ^ 63 - 1"
    by (simp_all add: l)
  have rb: "- (2 ^ 63) < fst (location (Rover_init 1 1 1))"
    "fst (location (Rover_init 1 1 1)) < 2 ^ 63 - 1"
    "- (2 ^ 63) < snd (location (Rover_init 1 1 1))"
    "snd (location (Rover_init 1 1 1)) < 2 ^ 63 - 1"
    by (simp_all add: l)
  have d: "width planet_2x3 = 2" "height planet_2x3 = 3"
    by (simp_all add: planet_2x3_def)
  have a: "move planet_2x3 (Rover_init 1 0 1) ''W'' =
             Inr (True, (Rover_init 1 0 1)\<lparr>location := (1, 1), state := LOST\<rparr>)"
    using C5_move [OF wf dW ra] g1 by (auto simp: l d)
  have b: "move planet_2x3 (Rover_init 1 1 1) ''S'' = Inr (False, Rover_init 1 1 1)"
    using C5_move [OF wf dS rb] g2 by (auto simp: l d)
  from wf dW dS ra rb a b show ?thesis by (intro conjI)
qed

section \<open>Gathering\<close>

lemma gather_wf:
  assumes "wf_planet p" and "get_cell p (location r) = Inr c"
    and "load r ''WATER'' = Some w" and "findings_locations r ''WATER'' = Some fw"
    and "load r ''MINERAL'' = Some m" and "findings_locations r ''MINERAL'' = Some fm"
  shows "\<exists>p'. empty_cell p (location r) = Inr (c = WATER \<or> c = MINERAL, p') \<and>
           gather p r =
             Inr (if c = WATER then
                    (p', r\<lparr>load := (load r)(''WATER'' \<mapsto> w + 1),
                           findings_locations :=
                             (findings_locations r)(''WATER'' \<mapsto> fw @ [location r])\<rparr>)
                  else if c = MINERAL then
                    (p', r\<lparr>load := (load r)(''MINERAL'' \<mapsto> m + 1),
                           findings_locations :=
                             (findings_locations r)(''MINERAL'' \<mapsto> fm @ [location r])\<rparr>)
                  else (p, r))"
proof -
  obtain p' where e: "empty_cell p (location r) = Inr (c = WATER \<or> c = MINERAL, p')"
    using empty_cell_effect [OF assms(1,2)] by blast
  have "gather p r =
             Inr (if c = WATER then
                    (p', r\<lparr>load := (load r)(''WATER'' \<mapsto> w + 1),
                           findings_locations :=
                             (findings_locations r)(''WATER'' \<mapsto> fw @ [location r])\<rparr>)
                  else if c = MINERAL then
                    (p', r\<lparr>load := (load r)(''MINERAL'' \<mapsto> m + 1),
                           findings_locations :=
                             (findings_locations r)(''MINERAL'' \<mapsto> fm @ [location r])\<rparr>)
                  else (p, r))"
    unfolding gather_def using assms(2-6) e by simp
  with e show ?thesis by blast
qed

lemma gather_keeps_state:
  assumes "gather p r = Inr (p', r')"
  shows "state r' = state r \<and> location r' = location r \<and> rover_id r' = rover_id r"
  using assms unfolding gather_def
  by (auto split: sum.splits option.splits if_splits prod.splits)

text \<open>
  C6. For every rover with both counters and both logs present, on a well-formed planet:
  \<open>gather\<close> on a water cell adds one to the water counter, appends the rover's location
  to the water log and makes that cell, and no other, empty; the same for mineral; on
  any other cell the planet and the rover are unchanged. In every case the state and the
  location of the rover stay as they were.
\<close>

theorem C6_gather:
  assumes "wf_planet p" and "get_cell p (location r) = Inr c"
    and "load r ''WATER'' = Some w" and "findings_locations r ''WATER'' = Some fw"
    and "load r ''MINERAL'' = Some m" and "findings_locations r ''MINERAL'' = Some fm"
  shows "\<exists>p' r'. gather p r = Inr (p', r') \<and> state r' = state r \<and> location r' = location r \<and>
           (c = WATER \<longrightarrow>
              load r' = (load r)(''WATER'' \<mapsto> w + 1) \<and>
              findings_locations r' = (findings_locations r)(''WATER'' \<mapsto> fw @ [location r]) \<and>
              (\<forall>q. get_cell p' q =
                     (if wrap p q = wrap p (location r) then Inr EMPTY else get_cell p q))) \<and>
           (c = MINERAL \<longrightarrow>
              load r' = (load r)(''MINERAL'' \<mapsto> m + 1) \<and>
              findings_locations r' = (findings_locations r)(''MINERAL'' \<mapsto> fm @ [location r]) \<and>
              (\<forall>q. get_cell p' q =
                     (if wrap p q = wrap p (location r) then Inr EMPTY else get_cell p q))) \<and>
           (c \<noteq> WATER \<and> c \<noteq> MINERAL \<longrightarrow> p' = p \<and> r' = r)"
proof -
  from empty_cell_effect [OF assms(1,2)] obtain p' where
    e: "empty_cell p (location r) = Inr (c = WATER \<or> c = MINERAL, p')"
    and cleared: "c = WATER \<or> c = MINERAL \<longrightarrow>
       (\<forall>q. get_cell p' q = (if wrap p q = wrap p (location r) then Inr EMPTY else get_cell p q))"
    by blast
  from gather_wf [OF assms] e
  have g: "gather p r =
             Inr (if c = WATER then
                    (p', r\<lparr>load := (load r)(''WATER'' \<mapsto> w + 1),
                           findings_locations :=
                             (findings_locations r)(''WATER'' \<mapsto> fw @ [location r])\<rparr>)
                  else if c = MINERAL then
                    (p', r\<lparr>load := (load r)(''MINERAL'' \<mapsto> m + 1),
                           findings_locations :=
                             (findings_locations r)(''MINERAL'' \<mapsto> fm @ [location r])\<rparr>)
                  else (p, r))"
    by auto
  consider (water) "c = WATER" | (mineral) "c = MINERAL" | (other) "c \<noteq> WATER" "c \<noteq> MINERAL"
    by blast
  then show ?thesis
  proof cases
    case water
    with g cleared show ?thesis by simp
  next
    case mineral
    with g cleared show ?thesis by simp
  next
    case other
    with g show ?thesis by simp
  qed
qed

theorem C6_gather_witness:
  "wf_planet planet_2x3 \<and> get_cell planet_2x3 (location (Rover_init 1 (- 2) 4)) = Inr WATER \<and>
   load (Rover_init 1 (- 2) 4) ''WATER'' = Some 0 \<and>
   findings_locations (Rover_init 1 (- 2) 4) ''WATER'' = Some [] \<and>
   load (Rover_init 1 (- 2) 4) ''MINERAL'' = Some 0 \<and>
   findings_locations (Rover_init 1 (- 2) 4) ''MINERAL'' = Some [] \<and>
   (case gather planet_2x3 (Rover_init 1 (- 2) 4) of
      Inl e \<Rightarrow> False
    | Inr (p', r') \<Rightarrow>
        state r' = EXPLORING \<and> location r' = (- 2, 4) \<and>
        load r' ''WATER'' = Some 1 \<and> load r' ''MINERAL'' = Some 0 \<and>
        findings_locations r' ''WATER'' = Some [(- 2, 4)] \<and>
        findings_locations r' ''MINERAL'' = Some [] \<and>
        get_cell p' (0, 1) = Inr EMPTY \<and> get_cell p' (0, 2) = Inr MINERAL)"
proof -
  let ?r = "Rover_init 1 (- 2) 4"
  have wf: "wf_planet planet_2x3"
    by (simp add: planet_2x3_def wf_planet_def)
  have gc: "get_cell planet_2x3 (location ?r) = Inr WATER"
    by (simp add: planet_2x3_def Rover_init_def get_cell_def wrap_def grid_get_def)
  have g2: "get_cell planet_2x3 (0, 2) = Inr MINERAL"
    by (simp add: planet_2x3_def get_cell_def wrap_def grid_get_def)
  have l: "load ?r ''WATER'' = Some 0" "findings_locations ?r ''WATER'' = Some []"
    "load ?r ''MINERAL'' = Some 0" "findings_locations ?r ''MINERAL'' = Some []"
    by (simp_all add: Rover_init_def)
  have st: "state ?r = EXPLORING" "location ?r = (- 2, 4)"
    by (simp_all add: Rover_init_def)
  have w1: "wrap planet_2x3 (0, 1) = wrap planet_2x3 (- 2, 4)"
    and w2: "wrap planet_2x3 (0, 2) \<noteq> wrap planet_2x3 (- 2, 4)"
    by (simp_all add: planet_2x3_def wrap_def)
  from C6_gather [OF wf gc l] obtain p' r' where
    g: "gather planet_2x3 ?r = Inr (p', r')"
    and s: "state r' = state ?r" "location r' = location ?r"
    and ld: "load r' = (load ?r)(''WATER'' \<mapsto> 0 + 1)"
    and fd: "findings_locations r' = (findings_locations ?r)(''WATER'' \<mapsto> [] @ [location ?r])"
    and cells: "\<forall>q. get_cell p' q =
        (if wrap planet_2x3 q = wrap planet_2x3 (location ?r) then Inr EMPTY
         else get_cell planet_2x3 q)"
    by auto
  have c1: "get_cell p' (0, 1) = Inr EMPTY" and c2: "get_cell p' (0, 2) = Inr MINERAL"
    using cells w1 w2 g2 st by simp_all
  show ?thesis
    using wf gc l g s st ld fd c1 c2 by simp
qed

section \<open>Counters and logs\<close>

lemma update_state_keeps_load:
  assumes "update_state p r = Inr r'"
  shows "load r' = load r \<and> findings_locations r' = findings_locations r \<and>
         location r' = location r \<and> rover_id r' = rover_id r"
  using assms unfolding update_state_def
  by (auto split: sum.splits if_splits)

lemma move_keeps_load:
  assumes "move p r d = Inr (b, r')"
  shows "load r' = load r \<and> findings_locations r' = findings_locations r \<and>
         rover_id r' = rover_id r"
  using assms unfolding move_def
  by (auto split: sum.splits option.splits if_splits prod.splits dest: update_state_keeps_load)

lemma gather_counts:
  assumes "gather p r = Inr (p', r')" and "findings_match_load r"
  shows "findings_match_load r' \<and>
         (load r' = load r \<and> findings_locations r' = findings_locations r \<or>
          (\<exists>k n found. k \<in> {''WATER'', ''MINERAL''} \<and>
             load r k = Some n \<and> findings_locations r k = Some found \<and>
             load r' = (load r)(k \<mapsto> n + 1) \<and>
             findings_locations r' = (findings_locations r)(k \<mapsto> found @ [location r])))"
proof -
  from assms(2) obtain w fw m fm where
    l: "load r ''WATER'' = Some w" "findings_locations r ''WATER'' = Some fw"
       "load r ''MINERAL'' = Some m" "findings_locations r ''MINERAL'' = Some fm"
    and n: "w = int (length fw)" "m = int (length fm)"
    by (auto simp: findings_match_load_def split: option.splits)
  from assms(1) obtain c where c: "get_cell p (location r) = Inr c"
    unfolding gather_def by (auto split: sum.splits)
  consider (water) "c = WATER" | (mineral) "c = MINERAL" | (other) "c \<noteq> WATER" "c \<noteq> MINERAL"
    by blast
  then show ?thesis
  proof cases
    case water
    with assms(1) c l have r': "r' = r\<lparr>load := (load r)(''WATER'' \<mapsto> w + 1),
        findings_locations := (findings_locations r)(''WATER'' \<mapsto> fw @ [location r])\<rparr>"
      unfolding gather_def by (auto split: sum.splits prod.splits)
    then have "findings_match_load r'"
      using l n by (simp add: findings_match_load_def)
    moreover have "\<exists>k n found. k \<in> {''WATER'', ''MINERAL''} \<and>
             load r k = Some n \<and> findings_locations r k = Some found \<and>
             load r' = (load r)(k \<mapsto> n + 1) \<and>
             findings_locations r' = (findings_locations r)(k \<mapsto> found @ [location r])"
      using r' l by (intro exI [of _ "''WATER''"] exI [of _ w] exI [of _ fw]) simp
    ultimately show ?thesis by blast
  next
    case mineral
    with assms(1) c l have r': "r' = r\<lparr>load := (load r)(''MINERAL'' \<mapsto> m + 1),
        findings_locations := (findings_locations r)(''MINERAL'' \<mapsto> fm @ [location r])\<rparr>"
      unfolding gather_def by (auto split: sum.splits prod.splits)
    then have "findings_match_load r'"
      using l n by (simp add: findings_match_load_def)
    moreover have "\<exists>k n found. k \<in> {''WATER'', ''MINERAL''} \<and>
             load r k = Some n \<and> findings_locations r k = Some found \<and>
             load r' = (load r)(k \<mapsto> n + 1) \<and>
             findings_locations r' = (findings_locations r)(k \<mapsto> found @ [location r])"
      using r' l by (intro exI [of _ "''MINERAL''"] exI [of _ m] exI [of _ fm]) simp
    ultimately show ?thesis by blast
  next
    case other
    with assms(1) c have "r' = r"
      unfolding gather_def by simp
    with assms(2) show ?thesis by simp
  qed
qed

text \<open>
  C10. A new rover has both counters at zero and both logs empty, so each counter is the
  length of its log. \<open>move\<close> changes neither the counters nor the logs. \<open>gather\<close>, from a
  rover whose counters are the lengths of its logs, either leaves counters and logs as
  they were, or adds one to the counter of one resource and appends one location, the
  rover's, to the log of the same resource; the counters are again the lengths of the
  logs.
\<close>

theorem C10_log_length_is_counter:
  "findings_match_load (Rover_init rid x y) \<and>
   load (Rover_init rid x y) = [''WATER'' \<mapsto> 0, ''MINERAL'' \<mapsto> 0] \<and>
   findings_locations (Rover_init rid x y) = [''WATER'' \<mapsto> [], ''MINERAL'' \<mapsto> []] \<and>
   (\<forall>p r d b r'. move p r d = Inr (b, r') \<longrightarrow>
      load r' = load r \<and> findings_locations r' = findings_locations r) \<and>
   (\<forall>p r p' r'. findings_match_load r \<and> gather p r = Inr (p', r') \<longrightarrow>
      findings_match_load r' \<and>
      (load r' = load r \<and> findings_locations r' = findings_locations r \<or>
       (\<exists>k n found. k \<in> {''WATER'', ''MINERAL''} \<and>
          load r k = Some n \<and> findings_locations r k = Some found \<and>
          load r' = (load r)(k \<mapsto> n + 1) \<and>
          findings_locations r' = (findings_locations r)(k \<mapsto> found @ [location r]))))"
proof -
  have init: "findings_match_load (Rover_init rid x y)"
    by (simp add: findings_match_load_def Rover_init_def)
  have zero: "load (Rover_init rid x y) = [''WATER'' \<mapsto> 0, ''MINERAL'' \<mapsto> 0]"
    "findings_locations (Rover_init rid x y) = [''WATER'' \<mapsto> [], ''MINERAL'' \<mapsto> []]"
    by (simp_all add: Rover_init_def)
  have mv: "\<forall>p r d b r'. move p r d = Inr (b, r') \<longrightarrow>
      load r' = load r \<and> findings_locations r' = findings_locations r"
  proof (intro allI impI)
    fix p r d b r' assume "move p r d = Inr (b, r')"
    from move_keeps_load [OF this]
    show "load r' = load r \<and> findings_locations r' = findings_locations r" by simp
  qed
  have ga: "\<forall>p r p' r'. findings_match_load r \<and> gather p r = Inr (p', r') \<longrightarrow>
      findings_match_load r' \<and>
      (load r' = load r \<and> findings_locations r' = findings_locations r \<or>
       (\<exists>k n found. k \<in> {''WATER'', ''MINERAL''} \<and>
          load r k = Some n \<and> findings_locations r k = Some found \<and>
          load r' = (load r)(k \<mapsto> n + 1) \<and>
          findings_locations r' = (findings_locations r)(k \<mapsto> found @ [location r])))"
  proof (intro allI impI)
    fix p r p' r' assume a: "findings_match_load r \<and> gather p r = Inr (p', r')"
    then have "gather p r = Inr (p', r')" and "findings_match_load r" by simp_all
    from gather_counts [OF this]
    show "findings_match_load r' \<and>
      (load r' = load r \<and> findings_locations r' = findings_locations r \<or>
       (\<exists>k n found. k \<in> {''WATER'', ''MINERAL''} \<and>
          load r k = Some n \<and> findings_locations r k = Some found \<and>
          load r' = (load r)(k \<mapsto> n + 1) \<and>
          findings_locations r' = (findings_locations r)(k \<mapsto> found @ [location r])))" .
  qed
  from init zero mv ga show ?thesis by (intro conjI)
qed

theorem C10_log_length_is_counter_witness:
  "findings_match_load (Rover_init 1 0 1) \<and>
   (case gather planet_2x3 (Rover_init 1 0 1) of
      Inl e \<Rightarrow> False
    | Inr (p', r') \<Rightarrow>
        findings_match_load r' \<and> load r' ''WATER'' = Some 1 \<and>
        findings_locations r' ''WATER'' = Some [(0, 1)] \<and>
        (case move p' r' ''N'' of
           Inl e \<Rightarrow> False
         | Inr (b, r'') \<Rightarrow>
             b \<and> load r'' = load r' \<and> findings_locations r'' = findings_locations r' \<and>
             findings_match_load r''))"
proof -
  let ?r = "Rover_init 1 0 1"
  let ?p' = "planet_2x3\<lparr>grid := [[EMPTY, EMPTY, MINERAL], [OBSTACLE, ACCIDENT, EMPTY]]\<rparr>"
  let ?r' = "?r\<lparr>load := (load ?r)(''WATER'' \<mapsto> 1),
                 findings_locations := (findings_locations ?r)(''WATER'' \<mapsto> [(0, 1)])\<rparr>"
  let ?r'' = "?r'\<lparr>location := (0, 2), state := GATHERING\<rparr>"
  note C10 = C10_log_length_is_counter [of 1 0 1]
  have init: "findings_match_load ?r" using C10 by simp
  have g: "gather planet_2x3 ?r = Inr (?p', ?r')"
    by (simp add: gather_def get_cell_def empty_cell_def wrap_def grid_get_def grid_set_def
          planet_2x3_def Rover_init_def)
  have m: "move ?p' ?r' ''N'' = Inr (True, ?r'')"
    by (simp add: move_def movements_def int64_def update_state_def get_cell_def wrap_def
          grid_get_def planet_2x3_def Rover_init_def)
  from C10 init g have fm': "findings_match_load ?r'" by blast
  from C10 m have keep: "load ?r'' = load ?r' \<and> findings_locations ?r'' = findings_locations ?r'"
    by blast
  have fm'': "findings_match_load ?r''"
    using fm' by (simp add: findings_match_load_def)
  have vals: "load ?r' ''WATER'' = Some 1" "findings_locations ?r' ''WATER'' = Some [(0, 1)]"
    by simp_all
  show ?thesis
    using init fm' keep fm'' vals by (simp add: g m)
qed

section \<open>Lost rovers\<close>

lemma rover_behavior_lost:
  assumes "state (rovers f ! i) = LOST"
  shows "rover_behavior i (f, s) = Inr (f, s)"
  using assms by (simp add: rover_behavior_def)

lemma gather_no_resource:
  assumes "get_cell p (location r) = Inr c" and "c \<noteq> WATER" and "c \<noteq> MINERAL"
  shows "gather p r = Inr (p, r)"
  using assms by (simp add: gather_def)

text \<open>
  C2 (as amended). The pass of \<open>rover_behavior\<close> for a rover whose state is \<open>LOST\<close> does
  nothing: the fleet, with its planet, its rovers and its counters, and the random
  stream are returned as they were, so the scheduler calls neither \<open>move\<close> nor \<open>gather\<close>
  on it. \<open>gather\<close> on a rover standing on an accident cell, where a rover becomes
  \<open>LOST\<close>, changes neither the planet nor the rover, and \<open>gather\<close> never changes the
  location or the state. \<open>move\<close> itself does not look at the state.
\<close>

theorem C2_lost_is_terminal_in_fleet:
  "(state (rovers f ! i) = LOST \<longrightarrow> rover_behavior i (f, s) = Inr (f, s)) \<and>
   (get_cell p (location r) = Inr ACCIDENT \<longrightarrow> gather p r = Inr (p, r)) \<and>
   (\<forall>p' r'. gather p r = Inr (p', r') \<longrightarrow> state r' = state r \<and> location r' = location r)"
proof (intro conjI impI allI)
  assume "state (rovers f ! i) = LOST"
  then show "rover_behavior i (f, s) = Inr (f, s)" by (rule rover_behavior_lost)
next
  assume "get_cell p (location r) = Inr ACCIDENT"
  then show "gather p r = Inr (p, r)" by (rule gather_no_resource) simp_all
next
  fix p' r' assume "gather p r = Inr (p', r')"
  from gather_keeps_state [OF this] show "state r' = state r" by simp
next
  fix p' r' assume "gather p r = Inr (p', r')"
  from gather_keeps_state [OF this] show "location r' = location r" by simp
qed

theorem C2_lost_is_terminal_in_fleet_witness:
  "state (rovers lost_fleet ! 0) = LOST \<and>
   rover_behavior 0 (lost_fleet, sconst 2) = Inr (lost_fleet, sconst 2) \<and>
   get_cell hazard_planet (location lost_rover) = Inr ACCIDENT \<and>
   gather hazard_planet lost_rover = Inr (hazard_planet, lost_rover) \<and>
   state lost_rover = LOST \<and> location lost_rover = (0, 0)"
proof -
  have st: "state (rovers lost_fleet ! 0) = LOST"
    by (simp add: lost_fleet_def lost_rover_def)
  have gc: "get_cell hazard_planet (location lost_rover) = Inr ACCIDENT"
    by (simp add: lost_rover_def Rover_init_def hazard_planet_def get_cell_def wrap_def
          grid_get_def)
  note C2 = C2_lost_is_terminal_in_fleet
    [of lost_fleet 0 "sconst 2" hazard_planet lost_rover]
  from C2 st have a: "rover_behavior 0 (lost_fleet, sconst 2) = Inr (lost_fleet, sconst 2)"
    by blast
  from C2 gc have b: "gather hazard_planet lost_rover = Inr (hazard_planet, lost_rover)"
    by blast
  have c: "state lost_rover = LOST" "location lost_rover = (0, 0)"
    by (simp_all add: lost_rover_def)
  from st a gc b c show ?thesis by (intro conjI)
qed

theorem C2_move_when_lost_counterexample:
  "move hazard_planet (Rover_init 1 1 0) ''W'' = Inr (True, lost_rover) \<and>
   state lost_rover = LOST \<and> location lost_rover = (0, 0) \<and>
   move hazard_planet lost_rover ''E'' =
     Inr (True, lost_rover\<lparr>location := (1, 0), state := EXPLORING\<rparr>)"
  by (simp add: lost_rover_def move_def movements_def int64_def update_state_def get_cell_def
        wrap_def grid_get_def hazard_planet_def Rover_init_def)

section \<open>Building a fleet\<close>

lemma Fleet_init_rovers:
  assumes "0 < n"
  shows "Fleet_init pl n dist =
         Inr \<lparr>planet = pl,
              rovers = map (\<lambda>i. Rover_init (int i + 1)
                                 ((int i * int (width pl)) div n + dist)
                                 ((int i * int (height pl)) div n))
                           [0..<nat n],
              lost_rovers = 0, water_total = 0, mineral_total = 0\<rparr>"
  using assms by (simp add: Fleet_init_def)

text \<open>
  C1 (as amended). \<open>Fleet_init\<close> with a positive number of rovers builds that many
  rovers, rover \<open>i\<close> being \<open>Rover_init\<close> at its computed position, and every one of them
  is \<open>EXPLORING\<close>, whatever its starting cell holds; the counters of the fleet are zero.
  With a number of rovers that is not positive the constructor fails.
\<close>

theorem C1_fleet_init_exploring:
  "(n \<le> 0 \<longrightarrow> Fleet_init pl n dist = Inl ValueError) \<and>
   (0 < n \<longrightarrow>
      (\<exists>f. Fleet_init pl n dist = Inr f \<and> planet f = pl \<and>
           length (rovers f) = nat n \<and>
           lost_rovers f = 0 \<and> water_total f = 0 \<and> mineral_total f = 0 \<and>
           (\<forall>i < nat n.
              rovers f ! i = Rover_init (int i + 1)
                               ((int i * int (width pl)) div n + dist)
                               ((int i * int (height pl)) div n) \<and>
              state (rovers f ! i) = EXPLORING)))"
proof (intro conjI impI)
  assume "n \<le> 0"
  then show "Fleet_init pl n dist = Inl ValueError"
    by (simp add: Fleet_init_def)
next
  assume n: "0 < n"
  let ?f = "\<lparr>planet = pl,
              rovers = map (\<lambda>i. Rover_init (int i + 1)
                                 ((int i * int (width pl)) div n + dist)
                                 ((int i * int (height pl)) div n))
                           [0..<nat n],
              lost_rovers = 0, water_total = 0, mineral_total = 0\<rparr>"
  have "Fleet_init pl n dist = Inr ?f"
    by (rule Fleet_init_rovers [OF n])
  moreover have "\<forall>i < nat n.
              rovers ?f ! i = Rover_init (int i + 1)
                               ((int i * int (width pl)) div n + dist)
                               ((int i * int (height pl)) div n) \<and>
              state (rovers ?f ! i) = EXPLORING"
    by (simp add: Rover_init_def)
  ultimately show "\<exists>f. Fleet_init pl n dist = Inr f \<and> planet f = pl \<and>
           length (rovers f) = nat n \<and>
           lost_rovers f = 0 \<and> water_total f = 0 \<and> mineral_total f = 0 \<and>
           (\<forall>i < nat n.
              rovers f ! i = Rover_init (int i + 1)
                               ((int i * int (width pl)) div n + dist)
                               ((int i * int (height pl)) div n) \<and>
              state (rovers f ! i) = EXPLORING)"
    by (intro exI [of _ ?f]) simp
qed

theorem C1_fleet_init_exploring_witness:
  "(0::int) < 2 \<and> (0::nat) < nat 2 \<and> (1::nat) < nat 2 \<and>
   Fleet_init planet_2x3 2 1 =
     Inr \<lparr>planet = planet_2x3, rovers = [Rover_init 1 1 0, Rover_init 2 2 1],
          lost_rovers = 0, water_total = 0, mineral_total = 0\<rparr> \<and>
   get_cell planet_2x3 (location (Rover_init 2 2 1)) = Inr WATER \<and>
   state (Rover_init 2 2 1) = EXPLORING \<and>
   (0::int) \<le> 0 \<and> Fleet_init planet_2x3 0 1 = Inl ValueError"
proof -
  note C1 = C1_fleet_init_exploring [of 2 planet_2x3 1]
  have pos: "(0::int) < 2" "(0::nat) < nat 2" "(1::nat) < nat 2" by simp_all
  from C1 pos(1) obtain f where
    f: "Fleet_init planet_2x3 2 1 = Inr f"
    and len: "length (rovers f) = nat 2"
    and pl: "planet f = planet_2x3"
    and cnt: "lost_rovers f = 0" "water_total f = 0" "mineral_total f = 0"
    and rs: "\<forall>i < nat 2. rovers f ! i = Rover_init (int i + 1)
               ((int i * int (width planet_2x3)) div 2 + 1)
               ((int i * int (height planet_2x3)) div 2) \<and>
             state (rovers f ! i) = EXPLORING"
    by blast
  from rs [rule_format, of 0] pos have r0: "rovers f ! 0 = Rover_init 1 1 0"
    by (simp add: planet_2x3_def)
  from rs [rule_format, of 1] pos have r1: "rovers f ! 1 = Rover_init 2 2 1"
    and st: "state (rovers f ! 1) = EXPLORING"
    by (auto simp: planet_2x3_def)
  from len r0 r1 have "rovers f = [Rover_init 1 1 0, Rover_init 2 2 1]"
    by (intro nth_equalityI) (auto simp: less_Suc_eq numeral_2_eq_2)
  with pl cnt have "f = \<lparr>planet = planet_2x3, rovers = [Rover_init 1 1 0, Rover_init 2 2 1],
          lost_rovers = 0, water_total = 0, mineral_total = 0\<rparr>"
    by simp
  with f have a: "Fleet_init planet_2x3 2 1 =
     Inr \<lparr>planet = planet_2x3, rovers = [Rover_init 1 1 0, Rover_init 2 2 1],
          lost_rovers = 0, water_total = 0, mineral_total = 0\<rparr>"
    by simp
  have b: "get_cell planet_2x3 (location (Rover_init 2 2 1)) = Inr WATER"
    by (simp add: planet_2x3_def Rover_init_def get_cell_def wrap_def grid_get_def)
  have c: "state (Rover_init 2 2 1) = EXPLORING"
    using st r1 by simp
  have d: "Fleet_init planet_2x3 0 1 = Inl ValueError"
    using C1_fleet_init_exploring [of 0 planet_2x3 1] by simp
  from pos a b c d show ?thesis by simp
qed

theorem C1_start_on_resource_counterexample:
  "Fleet_init water_planet 1 0 = Inr water_fleet \<and>
   get_cell (planet water_fleet) (location (rovers water_fleet ! 0)) = Inr WATER \<and>
   state (rovers water_fleet ! 0) = EXPLORING \<and>
   Fleet_init hazard_planet 1 0 =
     Inr \<lparr>planet = hazard_planet, rovers = [Rover_init 1 0 0], lost_rovers = 0,
          water_total = 0, mineral_total = 0\<rparr> \<and>
   get_cell hazard_planet (location (Rover_init 1 0 0)) = Inr ACCIDENT \<and>
   state (Rover_init 1 0 0) = EXPLORING"
  by (simp add: Fleet_init_def water_fleet_def water_planet_def hazard_planet_def
        Rover_init_def get_cell_def wrap_def grid_get_def)

section \<open>Random directions\<close>

lemma np_random_choice_direction:
  "\<exists>d \<in> {''N'', ''S'', ''E'', ''W''}. np_random_choice [''N'', ''S'', ''E'', ''W''] s = (d, stl s)"
proof -
  have "shd s mod 4 < 4" by simp
  then consider "shd s mod 4 = 0" | "shd s mod 4 = 1" | "shd s mod 4 = 2" | "shd s mod 4 = 3"
    by linarith
  then show ?thesis
    by cases (simp_all add: np_random_choice_def)
qed

section \<open>The planet of one water cell\<close>

lemma water_planet_move:
  assumes "d \<in> {''N'', ''S'', ''E'', ''W''}" and "grid p = [[c]]" and "width p = 1" and "height p = 1"
    and "c \<noteq> OBSTACLE"
  shows "move p r d =
         Inr (True, r\<lparr>location := (0, 0),
                       state := (if c = WATER \<or> c = MINERAL then GATHERING
                                 else if c = ACCIDENT then LOST else EXPLORING)\<rparr>)"
proof -
  have wf: "wf_planet p" using assms(2-4) by (simp add: wf_planet_def)
  obtain dx dy where m: "movements d = Some (dx, dy)"
    using assms(1) movements_cardinal by auto
  have g: "get_cell p (int64 (fst (location r) + dx), int64 (snd (location r) + dy)) = Inr c"
    using assms(2-4) by (simp add: get_cell_wf [OF wf])
  show ?thesis
    using move_wf [OF wf m g] assms(3-5) by simp
qed

lemma water_fleet_tick1:
  "tick (water_fleet, s) =
   Inr (water_fleet\<lparr>rovers := [(Rover_init 1 0 0)\<lparr>state := GATHERING\<rparr>]\<rparr>, stl s)"
proof -
  obtain d where d: "d \<in> {''N'', ''S'', ''E'', ''W''}"
    and ch: "np_random_choice [''N'', ''S'', ''E'', ''W''] s = (d, stl s)"
    using np_random_choice_direction by blast
  have m: "move water_planet (Rover_init 1 0 0) d =
           Inr (True, (Rover_init 1 0 0)\<lparr>location := (0, 0), state := GATHERING\<rparr>)"
    using water_planet_move [OF d, of water_planet WATER "Rover_init 1 0 0"]
    by (simp add: water_planet_def)
  have l: "(Rover_init 1 0 0)\<lparr>location := (0, 0), state := GATHERING\<rparr> =
           (Rover_init 1 0 0)\<lparr>state := GATHERING\<rparr>"
    by (simp add: Rover_init_def)
  have "rover_behavior 0 (water_fleet, s) =
        Inr (water_fleet\<lparr>rovers := [(Rover_init 1 0 0)\<lparr>state := GATHERING\<rparr>]\<rparr>, stl s)"
    using ch m l
    by (simp add: rover_behavior_def water_fleet_def Let_def Rover_init_def)
  then show ?thesis
    by (simp add: tick_def water_fleet_def)
qed

lemma water_fleet_tick2:
  "tick (water_fleet\<lparr>rovers := [(Rover_init 1 0 0)\<lparr>state := GATHERING\<rparr>]\<rparr>, s) =
   Inr (\<lparr>planet = water_planet\<lparr>grid := [[EMPTY]]\<rparr>,
         rovers = [(Rover_init 1 0 0)
                     \<lparr>load := [''WATER'' \<mapsto> 1, ''MINERAL'' \<mapsto> 0],
                      findings_locations := [''WATER'' \<mapsto> [(0, 0)], ''MINERAL'' \<mapsto> []]\<rparr>],
         lost_rovers = 0, water_total = 1, mineral_total = 0\<rparr>, stl s)"
proof -
  let ?r1 = "(Rover_init 1 0 0)\<lparr>state := GATHERING\<rparr>"
  let ?p2 = "water_planet\<lparr>grid := [[EMPTY]]\<rparr>"
  let ?r2 = "?r1\<lparr>load := (load ?r1)(''WATER'' \<mapsto> 0 + 1),
                  findings_locations := (findings_locations ?r1)(''WATER'' \<mapsto> [] @ [location ?r1])\<rparr>"
  obtain d where d: "d \<in> {''N'', ''S'', ''E'', ''W''}"
    and ch: "np_random_choice [''N'', ''S'', ''E'', ''W''] s = (d, stl s)"
    using np_random_choice_direction by blast
  have c0: "get_cell water_planet (location ?r1) = Inr WATER"
    by (simp add: water_planet_def Rover_init_def get_cell_def wrap_def grid_get_def)
  have g: "gather water_planet ?r1 = Inr (?p2, ?r2)"
    by (simp add: gather_def get_cell_def empty_cell_def wrap_def grid_get_def grid_set_def
          water_planet_def Rover_init_def)
  have c1: "get_cell ?p2 (location ?r2) = Inr EMPTY"
    by (simp add: water_planet_def Rover_init_def get_cell_def wrap_def grid_get_def)
  have m: "move ?p2 ?r2 d = Inr (True, ?r2\<lparr>location := (0, 0), state := EXPLORING\<rparr>)"
    using water_planet_move [OF d, of ?p2 EMPTY ?r2]
    by (simp add: water_planet_def)
  have r: "?r2\<lparr>location := (0, 0), state := EXPLORING\<rparr> =
           (Rover_init 1 0 0)
             \<lparr>load := [''WATER'' \<mapsto> 1, ''MINERAL'' \<mapsto> 0],
              findings_locations := [''WATER'' \<mapsto> [(0, 0)], ''MINERAL'' \<mapsto> []]\<rparr>"
    by (simp add: Rover_init_def fun_upd_twist)
  have "rover_behavior 0 (water_fleet\<lparr>rovers := [?r1]\<rparr>, s) =
   Inr (\<lparr>planet = ?p2,
         rovers = [(Rover_init 1 0 0)
                     \<lparr>load := [''WATER'' \<mapsto> 1, ''MINERAL'' \<mapsto> 0],
                      findings_locations := [''WATER'' \<mapsto> [(0, 0)], ''MINERAL'' \<mapsto> []]\<rparr>],
         lost_rovers = 0, water_total = 1, mineral_total = 0\<rparr>, stl s)"
    unfolding rover_behavior_def
    using ch c0 g c1 m r by (simp add: water_fleet_def Let_def Rover_init_def)
  then show ?thesis
    by (simp add: tick_def water_fleet_def)
qed

lemma water_fleet_run1:
  "run 1 (water_fleet, s) =
   Inr (water_fleet\<lparr>rovers := [(Rover_init 1 0 0)\<lparr>state := GATHERING\<rparr>]\<rparr>, stl s)"
  by (simp add: water_fleet_tick1)

lemma water_fleet_run2:
  "run 2 (water_fleet, s) =
   Inr (\<lparr>planet = water_planet\<lparr>grid := [[EMPTY]]\<rparr>,
         rovers = [(Rover_init 1 0 0)
                     \<lparr>load := [''WATER'' \<mapsto> 1, ''MINERAL'' \<mapsto> 0],
                      findings_locations := [''WATER'' \<mapsto> [(0, 0)], ''MINERAL'' \<mapsto> []]\<rparr>],
         lost_rovers = 0, water_total = 1, mineral_total = 0\<rparr>, stl (stl s))"
  by (simp add: numeral_2_eq_2 water_fleet_tick1 water_fleet_tick2)

text \<open>
  C9 (as amended). On the planet of one water cell, \<open>Fleet_init\<close> with one rover and
  offset zero places the rover at \<open>(0, 0)\<close> in state \<open>EXPLORING\<close>. Whatever directions
  are drawn: after one unit of time the rover is \<open>GATHERING\<close>, \<open>water_total\<close> is still
  \<open>0\<close> and the cell still holds water; after two units \<open>water_total\<close> is \<open>1\<close>, the
  rover's water counter is \<open>1\<close>, the cell is empty, and the rover, moved onto the only
  cell, is \<open>EXPLORING\<close> at \<open>(0, 0)\<close>.
\<close>

theorem C9_one_water_cell:
  "Fleet_init water_planet 1 0 = Inr water_fleet \<and>
   map location (rovers water_fleet) = [(0, 0)] \<and>
   map state (rovers water_fleet) = [EXPLORING] \<and>
   get_cell (planet water_fleet) (0, 0) = Inr WATER \<and>
   (\<exists>f1. run 1 (water_fleet, s) = Inr (f1, stl s) \<and>
         water_total f1 = 0 \<and> get_cell (planet f1) (0, 0) = Inr WATER \<and>
         map state (rovers f1) = [GATHERING] \<and> map location (rovers f1) = [(0, 0)]) \<and>
   (\<exists>f2. run 2 (water_fleet, s) = Inr (f2, stl (stl s)) \<and>
         water_total f2 = 1 \<and> mineral_total f2 = 0 \<and> lost_rovers f2 = 0 \<and>
         get_cell (planet f2) (0, 0) = Inr EMPTY \<and>
         map state (rovers f2) = [EXPLORING] \<and> map location (rovers f2) = [(0, 0)] \<and>
         map (\<lambda>r. load r ''WATER'') (rovers f2) = [Some 1])"
proof -
  have init: "Fleet_init water_planet 1 0 = Inr water_fleet"
    by (simp add: Fleet_init_def water_fleet_def water_planet_def)
  have start: "map location (rovers water_fleet) = [(0, 0)]"
    "map state (rovers water_fleet) = [EXPLORING]"
    "get_cell (planet water_fleet) (0, 0) = Inr WATER"
    by (simp_all add: water_fleet_def water_planet_def Rover_init_def get_cell_def wrap_def
          grid_get_def)
  let ?f1 = "water_fleet\<lparr>rovers := [(Rover_init 1 0 0)\<lparr>state := GATHERING\<rparr>]\<rparr>"
  have one: "water_total ?f1 = 0 \<and> get_cell (planet ?f1) (0, 0) = Inr WATER \<and>
         map state (rovers ?f1) = [GATHERING] \<and> map location (rovers ?f1) = [(0, 0)]"
    by (simp add: water_fleet_def water_planet_def Rover_init_def get_cell_def wrap_def
          grid_get_def)
  let ?f2 = "\<lparr>planet = water_planet\<lparr>grid := [[EMPTY]]\<rparr>,
         rovers = [(Rover_init 1 0 0)
                     \<lparr>load := [''WATER'' \<mapsto> 1, ''MINERAL'' \<mapsto> 0],
                      findings_locations := [''WATER'' \<mapsto> [(0, 0)], ''MINERAL'' \<mapsto> []]\<rparr>],
         lost_rovers = 0, water_total = 1, mineral_total = 0\<rparr>"
  have two: "water_total ?f2 = 1 \<and> mineral_total ?f2 = 0 \<and> lost_rovers ?f2 = 0 \<and>
         get_cell (planet ?f2) (0, 0) = Inr EMPTY \<and>
         map state (rovers ?f2) = [EXPLORING] \<and> map location (rovers ?f2) = [(0, 0)] \<and>
         map (\<lambda>r. load r ''WATER'') (rovers ?f2) = [Some 1]"
    by (simp add: water_planet_def Rover_init_def get_cell_def wrap_def grid_get_def)
  have ex1: "\<exists>f1. run 1 (water_fleet, s) = Inr (f1, stl s) \<and>
         water_total f1 = 0 \<and> get_cell (planet f1) (0, 0) = Inr WATER \<and>
         map state (rovers f1) = [GATHERING] \<and> map location (rovers f1) = [(0, 0)]"
    using water_fleet_run1 [of s] one by (intro exI [of _ ?f1] conjI) simp_all
  have ex2: "\<exists>f2. run 2 (water_fleet, s) = Inr (f2, stl (stl s)) \<and>
         water_total f2 = 1 \<and> mineral_total f2 = 0 \<and> lost_rovers f2 = 0 \<and>
         get_cell (planet f2) (0, 0) = Inr EMPTY \<and>
         map state (rovers f2) = [EXPLORING] \<and> map location (rovers f2) = [(0, 0)] \<and>
         map (\<lambda>r. load r ''WATER'') (rovers f2) = [Some 1]"
    using water_fleet_run2 [of s] two by (intro exI [of _ ?f2] conjI) simp_all
  from init start ex1 ex2 show ?thesis by (intro conjI)
qed

theorem C9_one_water_cell_witness:
  "\<exists>f2. run 2 (water_fleet, sconst 3) = Inr (f2, sconst 3) \<and> water_total f2 = 1 \<and>
        get_cell (planet f2) (0, 0) = Inr EMPTY \<and> map state (rovers f2) = [EXPLORING]"
  using C9_one_water_cell [of "sconst 3"] by auto

theorem C9_first_tick_counterexample:
  "Fleet_init water_planet 1 0 = Inr water_fleet \<and>
   state (rovers water_fleet ! 0) = EXPLORING \<and>
   run 1 (water_fleet, sconst 0) =
     Inr (water_fleet\<lparr>rovers := [(Rover_init 1 0 0)\<lparr>state := GATHERING\<rparr>]\<rparr>, sconst 0) \<and>
   water_total (water_fleet\<lparr>rovers := [(Rover_init 1 0 0)\<lparr>state := GATHERING\<rparr>]\<rparr>) = 0 \<and>
   get_cell (planet (water_fleet\<lparr>rovers := [(Rover_init 1 0 0)\<lparr>state := GATHERING\<rparr>]\<rparr>)) (0, 0)
     = Inr WATER"
proof -
  have "run 1 (water_fleet, sconst 0) =
     Inr (water_fleet\<lparr>rovers := [(Rover_init 1 0 0)\<lparr>state := GATHERING\<rparr>]\<rparr>, sconst 0)"
    using water_fleet_run1 [of "sconst 0"] by simp
  then show ?thesis
    by (simp add: Fleet_init_def water_fleet_def water_planet_def Rover_init_def get_cell_def
          wrap_def grid_get_def)
qed

section \<open>One pass of a rover's behaviour\<close>










section \<open>Fleet totals and rover counters\<close>







end
